theory Spec2Isabelle
  imports Main
begin

section \<open>Strings and untyped values\<close>

text \<open>
  JavaScript strings are modelled as \<^typ>\<open>string\<close>: a \<^typ>\<open>char\<close> is a code unit
  below 256, read as the Unicode code point of that number (ASCII and Latin-1). The
  helpers below are the string methods the application calls, on such strings:
  \<open>Array.prototype.join\<close>, \<open>String.prototype.trim\<close>, \<open>String.prototype.toLowerCase\<close> and
  \<open>Array.prototype.slice\<close> with a negative start.
\<close>

fun join :: "string \<Rightarrow> string list \<Rightarrow> string" where
  "join sep [] = []"
| "join sep [x] = x"
| "join sep (x # y # ys) = x @ sep @ join sep (y # ys)"

text \<open>
  The white space and line terminators that \<open>trim\<close> strips, below 256: tab, line feed,
  vertical tab, form feed, carriage return, space and no-break space (U+00A0).
\<close>

definition isWhitespace :: "char \<Rightarrow> bool" where
  "isWhitespace c =
     (c \<in> set [CHR 0x09, CHR 0x0A, CHR 0x0B, CHR 0x0C, CHR 0x0D, CHR 0x20, CHR 0xA0])"

definition trim :: "string \<Rightarrow> string" where
  "trim s = rev (dropWhile isWhitespace (rev (dropWhile isWhitespace s)))"

text \<open>
  The code points below 256 that have a lowercase mapping: \<open>A\<close> to \<open>Z\<close> (65 to 90) and
  the Latin-1 capitals U+00C0 to U+00DE (192 to 222) without the multiplication sign
  U+00D7 (215). Each maps to the code point 32 above it.
\<close>

definition isUpperCase_code :: "nat \<Rightarrow> bool" where
  "isUpperCase_code n =
     ((65 \<le> n \<and> n \<le> 90) \<or> (192 \<le> n \<and> n \<le> 214) \<or> (216 \<le> n \<and> n \<le> 222))"

definition toLowerCase_char :: "char \<Rightarrow> char" where
  "toLowerCase_char c =
     (let n = (of_char c :: nat) in if isUpperCase_code n then char_of (n + 32) else c)"

definition toLowerCase :: "string \<Rightarrow> string" where
  "toLowerCase s = map toLowerCase_char s"

text \<open>\<open>xs.slice(-n)\<close>: the start index is \<open>max (length + (-n)) 0\<close>.\<close>

definition slice_last :: "nat \<Rightarrow> 'a list \<Rightarrow> 'a list" where
  "slice_last n xs = drop (length xs - n) xs"

text \<open>Values of TypeScript type \<open>any\<close> (the entries of a \<open>Record<string, any>\<close>).\<close>

datatype json =
    JNull
  | JBool bool
  | JNum int
  | JString string
  | JArray "json list"
  | JObject "(string \<times> json) list"

fun truthy :: "json \<Rightarrow> bool" where
  "truthy JNull = False"
| "truthy (JBool b) = b"
| "truthy (JNum n) = (n \<noteq> 0)"
| "truthy (JString s) = (s \<noteq> [])"
| "truthy (JArray xs) = True"
| "truthy (JObject kvs) = True"

type_synonym jsrecord = "string \<rightharpoonup> json"

section \<open>The API client (services/api.ts)\<close>

subsection \<open>Data\<close>

text \<open>
  The interfaces of the module, with their declared field types: an optional field is an
  \<open>option\<close>. Fields the server sends beyond the declared ones travel in the record's
  extension, which a spread \<open>{...data, field: v}\<close> copies like every other field.
\<close>

record Tool =
  name :: string
  description :: string
  created_by :: string
  created_at :: string
  code :: "string option"
  is_sample :: "bool option"

record CreateToolRequest =
  ctr_description :: string
  ctr_code :: "string option"
  ctr_created_by :: string

record CreateToolFromCodeRequest =
  cfc_name :: string
  cfc_code :: string
  cfc_created_by :: string

text \<open>A thrown \<open>Error(message)\<close>; a rejected promise is \<open>Inl\<close> of it.\<close>

datatype js_error = Error string

text \<open>
  What \<open>await fetch(...)\<close> followed by \<open>await response.json()\<close> yields: a body with
  \<open>response.ok\<close> true, a body with \<open>response.ok\<close> false (of which only \<open>data.detail\<close> is
  read), or a rejection of either promise, which the \<open>catch\<close> block logs and rethrows.
\<close>

datatype 'a http_response =
    Response_ok 'a
  | Response_not_ok "string option"
  | Fetch_rejected js_error

text \<open>\<open>new Error(data.detail || generic)\<close>: a missing or empty detail is falsy.\<close>

definition detail_or :: "string option \<Rightarrow> string \<Rightarrow> js_error" where
  "detail_or detail generic =
     (case detail of
        None \<Rightarrow> Error generic
      | Some d \<Rightarrow> if d = [] then Error generic else Error d)"

text \<open>
  \<open>Agent['type']\<close> is a union of string literals, but the client lowercases the server's
  value and tests the argument's for emptiness, so the field is a string here. The
  \<open>status\<close> union is only ever copied.
\<close>

datatype AgentStatus = Active | Inactive

record Agent =
  agent_id :: int
  agent_name :: string
  agent_type :: string
  status :: AgentStatus
  configuration :: "jsrecord option"

text \<open>
  An agent object held by the controller: the agent's fields and the object's identity.
  The code never mutates an agent, so two objects are the same reference exactly when
  they have the same address.
\<close>

record AgentObject = Agent +
  address :: nat

text \<open>\<open>Partial<Agent>\<close>: every field may be absent.\<close>

record PartialAgent =
  p_id :: "int option"
  p_name :: "string option"
  p_type :: "string option"
  p_status :: "AgentStatus option"
  p_configuration :: "jsrecord option"

record AgentInteractionResponse =
  air_response :: string
  air_message :: string
  air_created_at :: string
  air_metadata :: "jsrecord option"

text \<open>The body of a successful query or interact response, as far as the client reads it.\<close>

record InteractionData =
  data_response :: string
  data_metadata :: "jsrecord option"

text \<open>A multipart form: its fields in the order they were appended.\<close>

type_synonym formData = "(string \<times> string) list"

text \<open>
  The HTTP requests of the client, by endpoint, with their payloads. A \<open>File\<close> is
  represented by its name.
\<close>

datatype request =
    GET_tools
  | GET_tool string
  | POST_tools CreateToolRequest
  | POST_tools_code CreateToolFromCodeRequest
  | GET_agents
  | POST_agents PartialAgent
  | POST_agent_upload int string
  | POST_agent_query int formData
  | POST_agent_interact int formData

subsection \<open>Tool operations\<close>

text \<open>
  \<open>tool.is_sample || ['multiply', 'add'].includes(tool.name)\<close>, on the declared
  \<open>is_sample?: boolean\<close>: only \<open>true\<close> is truthy.
\<close>

definition sample_flag :: "'z Tool_scheme \<Rightarrow> bool" where
  "sample_flag tool =
     (case is_sample tool of
        Some True \<Rightarrow> True
      | _ \<Rightarrow> name tool \<in> set [''multiply'', ''add''])"

definition listTools ::
  "'z Tool_scheme list http_response \<Rightarrow> request list \<times> (js_error + 'z Tool_scheme list)" where
  "listTools resp =
     ([GET_tools],
      case resp of
        Fetch_rejected e \<Rightarrow> Inl e
      | Response_not_ok detail \<Rightarrow> Inl (detail_or detail ''Failed to list tools'')
      | Response_ok data \<Rightarrow>
          Inr (map (\<lambda>tool. tool\<lparr>is_sample := Some (sample_flag tool)\<rparr>) data))"

definition getTool ::
  "string \<Rightarrow> 'z Tool_scheme http_response \<Rightarrow> request list \<times> (js_error + 'z Tool_scheme)" where
  "getTool nm resp =
     ([GET_tool nm],
      case resp of
        Fetch_rejected e \<Rightarrow> Inl e
      | Response_not_ok detail \<Rightarrow> Inl (detail_or detail ''Failed to get tool'')
      | Response_ok data \<Rightarrow> Inr (data\<lparr>is_sample := Some (sample_flag data)\<rparr>))"

definition createTool ::
  "CreateToolRequest \<Rightarrow> 'z Tool_scheme http_response \<Rightarrow>
     request list \<times> (js_error + 'z Tool_scheme)" where
  "createTool req resp =
     ([POST_tools req],
      case resp of
        Fetch_rejected e \<Rightarrow> Inl e
      | Response_not_ok detail \<Rightarrow> Inl (detail_or detail ''Failed to create tool'')
      | Response_ok data \<Rightarrow> Inr (data\<lparr>is_sample := Some False\<rparr>))"

definition createToolFromCode ::
  "CreateToolFromCodeRequest \<Rightarrow> 'z Tool_scheme http_response \<Rightarrow>
     request list \<times> (js_error + 'z Tool_scheme)" where
  "createToolFromCode req resp =
     ([POST_tools_code req],
      case resp of
        Fetch_rejected e \<Rightarrow> Inl e
      | Response_not_ok detail \<Rightarrow> Inl (detail_or detail ''Failed to create tool from code'')
      | Response_ok data \<Rightarrow> Inr (data\<lparr>is_sample := Some False\<rparr>))"

subsection \<open>Agent operations\<close>

definition listAgents ::
  "'z Agent_scheme list http_response \<Rightarrow> request list \<times> (js_error + 'z Agent_scheme list)" where
  "listAgents resp =
     ([GET_agents],
      case resp of
        Fetch_rejected e \<Rightarrow> Inl e
      | Response_not_ok detail \<Rightarrow> Inl (detail_or detail ''Failed to list agents'')
      | Response_ok data \<Rightarrow>
          Inr (map (\<lambda>agent. agent\<lparr>agent_type := toLowerCase (agent_type agent)\<rparr>) data))"

text \<open>
  \<open>!agent.name\<close>, \<open>!agent.type\<close>: an absent or empty string is falsy. In
  \<open>agent.status || 'active'\<close> both statuses are non-empty strings, and in
  \<open>agent.configuration || {}\<close> every object is truthy, so only an absent field takes the
  default.
\<close>

definition falsy_string :: "string option \<Rightarrow> bool" where
  "falsy_string v = (case v of None \<Rightarrow> True | Some s \<Rightarrow> s = [])"

definition createAgent ::
  "PartialAgent \<Rightarrow> 'z Agent_scheme http_response \<Rightarrow>
     request list \<times> (js_error + 'z Agent_scheme)" where
  "createAgent agent resp =
     (if falsy_string (p_name agent) \<or> falsy_string (p_type agent)
      then ([], Inl (Error ''Agent name and type are required''))
      else
        let agentData = agent\<lparr>
              p_status := Some (case p_status agent of None \<Rightarrow> Active | Some st \<Rightarrow> st),
              p_configuration :=
                Some (case p_configuration agent of None \<Rightarrow> Map.empty | Some c \<Rightarrow> c)\<rparr>
        in ([POST_agents agentData],
            case resp of
              Fetch_rejected e \<Rightarrow> Inl e
            | Response_not_ok detail \<Rightarrow> Inl (detail_or detail ''Failed to create agent'')
            | Response_ok data \<Rightarrow>
                Inr (data\<lparr>agent_type := toLowerCase (agent_type data)\<rparr>)))"

definition uploadDocument ::
  "int \<Rightarrow> string \<Rightarrow> json http_response \<Rightarrow> request list \<times> (js_error + json)" where
  "uploadDocument agentId file resp =
     ([POST_agent_upload agentId file],
      case resp of
        Fetch_rejected e \<Rightarrow> Inl e
      | Response_not_ok detail \<Rightarrow> Inl (detail_or detail ''Failed to upload document'')
      | Response_ok data \<Rightarrow> Inr data)"

text \<open>
  \<open>queryAgent\<close>. The context entries are appended after \<open>query\<close> in their own order;
  their values are strings already (the callers pass strings, on which \<open>toString\<close> is
  the identity). \<open>now\<close> is what \<open>new Date().toISOString()\<close> returns when the response
  has arrived.
\<close>

definition queryAgent ::
  "string \<Rightarrow> int \<Rightarrow> string \<Rightarrow> formData option \<Rightarrow> 'z InteractionData_scheme http_response \<Rightarrow>
     request list \<times> (js_error + AgentInteractionResponse)" where
  "queryAgent now agentId query context resp =
     (let formData = [(''query'', query)] @ (case context of None \<Rightarrow> [] | Some entries \<Rightarrow> entries)
      in ([POST_agent_query agentId formData],
          case resp of
            Fetch_rejected e \<Rightarrow> Inl e
          | Response_not_ok detail \<Rightarrow> Inl (detail_or detail ''Failed to query agent'')
          | Response_ok data \<Rightarrow>
              Inr \<lparr>air_response = data_response data, air_message = query,
                   air_created_at = now, air_metadata = data_metadata data\<rparr>))"

definition interactWithAgent ::
  "string \<Rightarrow> int \<Rightarrow> string \<Rightarrow> 'z InteractionData_scheme http_response \<Rightarrow>
     request list \<times> (js_error + AgentInteractionResponse)" where
  "interactWithAgent now agentId msg resp =
     (let formData = [(''message'', msg)]
      in ([POST_agent_interact agentId formData],
          case resp of
            Fetch_rejected e \<Rightarrow> Inl e
          | Response_not_ok detail \<Rightarrow> Inl (detail_or detail ''Failed to interact with agent'')
          | Response_ok data \<Rightarrow>
              Inr \<lparr>air_response = data_response data, air_message = msg,
                   air_created_at = now, air_metadata = data_metadata data\<rparr>))"

section \<open>The root controller (app/page.tsx, component Home)\<close>

subsection \<open>State\<close>

datatype AgentType = Conversational | Rag | Tool_calling | Coding

fun agentType_string :: "AgentType \<Rightarrow> string" where
  "agentType_string Conversational = ''conversational''"
| "agentType_string Rag = ''rag''"
| "agentType_string Tool_calling = ''tool_calling''"
| "agentType_string Coding = ''coding''"

datatype CodingMode = Generate | Troubleshoot | Explain

fun codingMode_string :: "CodingMode \<Rightarrow> string" where
  "codingMode_string Generate = ''generate''"
| "codingMode_string Troubleshoot = ''troubleshoot''"
| "codingMode_string Explain = ''explain''"

datatype Role = User | Assistant

text \<open>
  A chat message. \<open>language\<close> and \<open>code\<close> of an assistant message come out of the
  response's \<open>metadata\<close>, whose entries have type \<open>any\<close>, so they are untyped values.
\<close>

record Message =
  role :: Role
  content :: string
  timestamp :: string
  language :: "json option"
  msg_code :: "json option"
  msg_error :: "bool option"

record SelectedTool =
  st_name :: string
  st_description :: string

text \<open>The draft of the agent being created (\<open>newAgent\<close>).\<close>

record NewAgent =
  na_name :: string
  na_type :: AgentType
  na_configuration :: jsrecord

text \<open>One field for each \<open>useState\<close> of the component.\<close>

record state =
  agents :: "AgentObject list"
  selectedAgent :: "AgentObject option"
  selectedType :: AgentType
  isCreating :: bool
  isLoading :: bool
  error :: "string option"
  newAgent :: NewAgent
  selectedTools :: "SelectedTool list"
  showToolManager :: bool
  message :: string
  messages :: "Message list"
  selectedLanguage :: string
  codingMode :: CodingMode
  isProcessingDocument :: bool
  hasDocument :: bool
  currentDocument :: "string option"
  hoveredAgent :: "int option"

definition initial_state :: state where
  "initial_state =
     \<lparr>agents = [], selectedAgent = None, selectedType = Conversational, isCreating = False,
      isLoading = False, error = None,
      newAgent = \<lparr>na_name = [], na_type = Conversational, na_configuration = Map.empty\<rparr>,
      selectedTools = [], showToolManager = False, message = [], messages = [],
      selectedLanguage = ''python'', codingMode = Generate, isProcessingDocument = False,
      hasDocument = False, currentDocument = None, hoveredAgent = None\<rparr>"

subsection \<open>Effects\<close>

text \<open>The body of the effect that depends on \<open>selectedAgent\<close>.\<close>

definition selectedAgent_effect :: "state \<Rightarrow> state" where
  "selectedAgent_effect s =
     (case selectedAgent s of
        None \<Rightarrow> s
      | Some agent \<Rightarrow>
          let s1 = s\<lparr>hasDocument := False, currentDocument := None, messages := []\<rparr>
          in if agent_type agent = ''coding'' then s1\<lparr>codingMode := Generate\<rparr> else s1)"

text \<open>The body of the effect that depends on \<open>selectedType\<close>.\<close>

definition selectedType_effect :: "state \<Rightarrow> state" where
  "selectedType_effect s =
     s\<lparr>newAgent := (newAgent s)\<lparr>na_type := selectedType s, na_configuration := Map.empty\<rparr>\<rparr>"

text \<open>
  After the render that follows a handler, React runs each effect whose dependency is
  not (by \<open>Object.is\<close>) the value of the previous render; \<open>old\<close> and \<open>new\<close> are the states
  before and after the handler. \<open>Object.is\<close> compares agents by reference: an agent object
  carries its address, so two objects are equal here only if they are the same reference.
\<close>

definition run_effects :: "state \<Rightarrow> state \<Rightarrow> state" where
  "run_effects old new =
     (let s1 = (if selectedAgent new \<noteq> selectedAgent old then selectedAgent_effect new else new)
      in if selectedType s1 \<noteq> selectedType old then selectedType_effect s1 else s1)"

subsection \<open>Handlers\<close>

text \<open>
  A handler takes what the environment supplies (the server's response to the request it
  may issue, the clock) and the state, and returns the state after its last update
  together with the requests it issued, in order.
\<close>

text \<open>
  The objects that \<open>listAgents\<close> and \<open>createAgent\<close> return are new (\<open>{...agent, type: ...}\<close>
  builds one for each agent): each gets an address that no agent object the state holds
  has, and the objects of one list get different addresses.
\<close>

definition new_object :: "nat \<Rightarrow> Agent \<Rightarrow> AgentObject" where
  "new_object a agent =
     \<lparr>agent_id = agent_id agent, agent_name = agent_name agent, agent_type = agent_type agent,
      status = status agent, configuration = configuration agent, address = a\<rparr>"

fun new_objects :: "nat \<Rightarrow> Agent list \<Rightarrow> AgentObject list" where
  "new_objects a [] = []"
| "new_objects a (agent # rest) = new_object a agent # new_objects (Suc a) rest"

definition live_addresses :: "state \<Rightarrow> nat list" where
  "live_addresses s =
     map address (agents s @ (case selectedAgent s of None \<Rightarrow> [] | Some agent \<Rightarrow> [agent]))"

definition fresh_address :: "state \<Rightarrow> nat" where
  "fresh_address s = Suc (fold max (live_addresses s) 0)"

definition loadAgents :: "Agent list http_response \<Rightarrow> state \<Rightarrow> state \<times> request list" where
  "loadAgents resp s =
     (let s1 = s\<lparr>isLoading := True\<rparr>;
          (reqs, r) = listAgents resp
      in case r of
           Inr fetchedAgents \<Rightarrow>
             (s1\<lparr>agents := new_objects (fresh_address s) fetchedAgents, isLoading := False\<rparr>,
              reqs)
         | Inl err \<Rightarrow> (s1\<lparr>error := Some ''Failed to load agents'', isLoading := False\<rparr>, reqs))"

text \<open>\<open>`${msg.role === 'user' ? 'User' : 'Assistant'}: ${msg.content}`\<close>\<close>

definition format_message :: "Message \<Rightarrow> string" where
  "format_message msg = (if role msg = User then ''User'' else ''Assistant'') @ '': '' @ content msg"

text \<open>\<open>metadata?.key\<close>\<close>

definition metadata_field :: "jsrecord option \<Rightarrow> string \<Rightarrow> json option" where
  "metadata_field metadata key = (case metadata of None \<Rightarrow> None | Some m \<Rightarrow> m key)"

text \<open>
  The constants of \<open>handleMessageSend\<close>. \<open>now\<close> is the clock when the user message is
  built; \<open>messages s\<close> is the list the handler closed over, before the optimistic append.
\<close>

definition userMessage :: "string \<Rightarrow> AgentObject \<Rightarrow> state \<Rightarrow> Message" where
  "userMessage now agent s =
     \<lparr>role = User, content = message s, timestamp = now,
      language = (if agent_type agent = ''coding''
                  then Some (JString (selectedLanguage s)) else None),
      msg_code = None,
      msg_error = Some (agent_type agent = ''coding'' \<and> codingMode s = Troubleshoot)\<rparr>"

definition lastFiveMessages :: "state \<Rightarrow> string" where
  "lastFiveMessages s = join ''\<newline>'' (map format_message (slice_last 5 (messages s)))"

definition messageWithHistory :: "state \<Rightarrow> string" where
  "messageWithHistory s =
     (if lastFiveMessages s \<noteq> []
      then ''Chat history:\<newline>'' @ lastFiveMessages s
             @ ''\<newline>\<newline>New message:\<newline>'' @ message s
      else message s)"

definition query_context :: "AgentObject \<Rightarrow> state \<Rightarrow> formData option" where
  "query_context agent s =
     (if agent_type agent = ''coding''
      then Some [(''language'', selectedLanguage s), (''mode'', codingMode_string (codingMode s))]
      else None)"

definition agentMessage :: "AgentInteractionResponse \<Rightarrow> state \<Rightarrow> Message" where
  "agentMessage response s =
     \<lparr>role = Assistant, content = air_response response, timestamp = air_created_at response,
      language =
        (case metadata_field (air_metadata response) ''language'' of
           None \<Rightarrow> Some (JString (selectedLanguage s))
         | Some v \<Rightarrow> (if truthy v then Some v else Some (JString (selectedLanguage s)))),
      msg_code = metadata_field (air_metadata response) ''formatted_code'',
      msg_error = None\<rparr>"

text \<open>\<open>now'\<close> is the clock when the response arrives.\<close>

definition handleMessageSend ::
  "string \<Rightarrow> string \<Rightarrow> InteractionData http_response \<Rightarrow> state \<Rightarrow> state \<times> request list" where
  "handleMessageSend now now' resp s =
     (case selectedAgent s of
        None \<Rightarrow> (s, [])
      | Some agent \<Rightarrow>
          (if trim (message s) = [] then (s, [])
           else
             (let s1 = s\<lparr>isLoading := True\<rparr>;
                  s2 = s1\<lparr>messages := messages s @ [userMessage now agent s], message := []\<rparr>;
                  (reqs, r) =
                    queryAgent now' (agent_id agent) (messageWithHistory s)
                      (query_context agent s) resp
              in (case r of
                    Inr response \<Rightarrow>
                      (s2\<lparr>messages := messages s2 @ [agentMessage response s],
                          isLoading := False\<rparr>, reqs)
                  | Inl err \<Rightarrow>
                      (s2\<lparr>error := Some ''Failed to send message'', isLoading := False\<rparr>,
                       reqs)))))"

text \<open>
  \<open>handleFileUpload\<close>. \<open>selectedAgent!.id\<close> on no selection throws inside the \<open>try\<close>,
  before any request.
\<close>

definition summary_message :: "AgentInteractionResponse \<Rightarrow> Message" where
  "summary_message response =
     \<lparr>role = Assistant, content = air_response response, timestamp = air_created_at response,
      language = None, msg_code = None, msg_error = None\<rparr>"

definition upload_failed :: "state \<Rightarrow> state" where
  "upload_failed s = s\<lparr>error := Some ''Failed to process document'', isProcessingDocument := False\<rparr>"

definition handleFileUpload ::
  "string \<Rightarrow> string \<Rightarrow> json http_response \<Rightarrow> InteractionData http_response \<Rightarrow> state \<Rightarrow>
     state \<times> request list" where
  "handleFileUpload file now' upload_resp query_resp s =
     (let s1 = s\<lparr>isProcessingDocument := True\<rparr>
      in (case selectedAgent s of
            None \<Rightarrow> (upload_failed s1, [])
          | Some agent \<Rightarrow>
              (let (reqs1, r1) = uploadDocument (agent_id agent) file upload_resp
               in (case r1 of
                     Inl err \<Rightarrow> (upload_failed s1, reqs1)
                   | Inr uploaded \<Rightarrow>
                       (let (reqs2, r2) =
                              queryAgent now' (agent_id agent)
                                ''Please provide a brief summary of this document.'' None
                                query_resp
                        in (case r2 of
                              Inl err \<Rightarrow> (upload_failed s1, reqs1 @ reqs2)
                            | Inr response \<Rightarrow>
                                (s1\<lparr>hasDocument := True, currentDocument := Some file,
                                    messages := [summary_message response],
                                    isProcessingDocument := False\<rparr>,
                                 reqs1 @ reqs2)))))))"

text \<open>\<open>handleStartCreating\<close> and the form's \<open>onCancel\<close>.\<close>

definition handleStartCreating :: "state \<Rightarrow> state" where
  "handleStartCreating s =
     s\<lparr>isCreating := True,
       newAgent := \<lparr>na_name = [], na_type = selectedType s, na_configuration = Map.empty\<rparr>\<rparr>"

definition onCancel :: "state \<Rightarrow> state" where
  "onCancel s =
     s\<lparr>isCreating := False,
       newAgent := \<lparr>na_name = [], na_type = selectedType s, na_configuration = Map.empty\<rparr>,
       selectedTools := [], showToolManager := False\<rparr>"

text \<open>
  The tool agent's generated prompt:
  \<open>`You are an AI assistant with access to the following tools:\n${...join('\n')}\n\nPlease
  help with the following request:\n{input}`\<close>
\<close>

definition tool_line :: "SelectedTool \<Rightarrow> string" where
  "tool_line tool = ''- '' @ st_name tool @ '': '' @ st_description tool"

definition tool_prompt_template :: "SelectedTool list \<Rightarrow> string" where
  "tool_prompt_template tools =
     ''You are an AI assistant with access to the following tools:\<newline>''
       @ join ''\<newline>'' (map tool_line tools)
       @ ''\<newline>\<newline>Please help with the following request:\<newline>{input}''"

text \<open>\<open>agentData\<close>: the draft, with the tools and their prompt merged over its configuration.\<close>

definition agentData :: "state \<Rightarrow> PartialAgent" where
  "agentData s =
     \<lparr>p_id = None,
      p_name = Some (na_name (newAgent s)),
      p_type = Some (agentType_string (na_type (newAgent s))),
      p_status = None,
      p_configuration =
        Some (na_configuration (newAgent s) ++
              (if na_type (newAgent s) = Tool_calling
               then [''tools'' \<mapsto> JArray (map (\<lambda>tool. JString (st_name tool)) (selectedTools s)),
                     ''prompt_template'' \<mapsto> JString (tool_prompt_template (selectedTools s))]
               else Map.empty))\<rparr>"

definition handleCreateAgent :: "Agent http_response \<Rightarrow> state \<Rightarrow> state \<times> request list" where
  "handleCreateAgent resp s =
     (let s1 = s\<lparr>isLoading := True, error := None\<rparr>
      in if na_type (newAgent s) = Tool_calling \<and> selectedTools s = []
         then (s1\<lparr>error := Some ''Please select at least one tool for the Tool Agent'',
                  isLoading := False\<rparr>, [])
         else
           (let (reqs, r) = createAgent (agentData s) resp
            in (case r of
                  Inr created \<Rightarrow>
                    (let agent = new_object (fresh_address s) created
                     in (s1\<lparr>agents := agents s @ [agent], isCreating := False,
                        selectedAgent := Some agent,
                        newAgent := \<lparr>na_name = [], na_type = selectedType s,
                                     na_configuration = Map.empty\<rparr>,
                        selectedTools := [], showToolManager := False, isLoading := False\<rparr>,
                     reqs))
                | Inl err \<Rightarrow>
                    (s1\<lparr>error := Some ''Failed to create agent'', isLoading := False\<rparr>, reqs))))"

subsection \<open>The creation form (components/AgentCreationForm.tsx)\<close>

text \<open>
  The form reads \<open>newAgent\<close> and \<open>selectedTools\<close> from its props and writes through
  \<open>onAgentChange\<close>, \<open>onToolsChange\<close> and \<open>onShowToolManagerChange\<close>, which are the
  controller's setters.
\<close>

definition default_prompt_template :: string where
  "default_prompt_template =
     ''You are a helpful AI assistant. Please respond to the following message:\<newline>\<newline>{input}''"

definition handleTypeChange :: "AgentType \<Rightarrow> state \<Rightarrow> state" where
  "handleTypeChange type s =
     (let defaultConfig =
            (if type = Conversational
             then [''prompt_template'' \<mapsto> JString default_prompt_template]
             else Map.empty);
          s1 = s\<lparr>newAgent := (newAgent s)\<lparr>na_type := type, na_configuration := defaultConfig\<rparr>\<rparr>
      in if type = Tool_calling then s1\<lparr>showToolManager := True\<rparr>
         else s1\<lparr>showToolManager := False, selectedTools := []\<rparr>)"

definition name_onChange :: "string \<Rightarrow> state \<Rightarrow> state" where
  "name_onChange v s = s\<lparr>newAgent := (newAgent s)\<lparr>na_name := v\<rparr>\<rparr>"

definition prompt_template_onChange :: "string \<Rightarrow> state \<Rightarrow> state" where
  "prompt_template_onChange v s =
     s\<lparr>newAgent := (newAgent s)\<lparr>na_configuration :=
          (na_configuration (newAgent s))(''prompt_template'' \<mapsto> JString v)\<rparr>\<rparr>"

definition removeSelectedTool :: "string \<Rightarrow> state \<Rightarrow> state" where
  "removeSelectedTool toolName s =
     s\<lparr>selectedTools := filter (\<lambda>t. st_name t \<noteq> toolName) (selectedTools s)\<rparr>"

definition onToolSelect :: "Tool \<Rightarrow> state \<Rightarrow> state" where
  "onToolSelect tool s =
     (if \<exists>t \<in> set (selectedTools s). st_name t = name tool then s
      else s\<lparr>selectedTools := selectedTools s
                @ [\<lparr>st_name = name tool, st_description = description tool\<rparr>]\<rparr>)"

definition onToolCreate :: "Tool \<Rightarrow> state \<Rightarrow> state" where
  "onToolCreate tool s =
     s\<lparr>selectedTools := selectedTools s
          @ [\<lparr>st_name = name tool, st_description = description tool\<rparr>]\<rparr>"

subsection \<open>Events\<close>

text \<open>
  What the user and the environment can do to the component: \<open>loadAgents\<close> on mount, and
  one event for each callback wired in the component's JSX, with the values the
  environment supplies. A handler runs to its end before the next event: events that
  arrive while a request is in flight are outside this model.
\<close>

datatype event =
    Mount "Agent list http_response"
  | TypeSelect AgentType
  | AgentSelect AgentObject
  | AgentHover "int option"
  | CreateClick
  | DismissError
  | NameChange string
  | TypeChange AgentType
  | PromptTemplateChange string
  | RemoveTool string
  | ToolSelect Tool
  | ToolCreate Tool
  | ShowToolManagerChange bool
  | Cancel
  | Submit "Agent http_response"
  | MessageChange string
  | LanguageChange string
  | CodingModeChange CodingMode
  | MessageSend string string "InteractionData http_response"
  | FileUpload string string "json http_response" "InteractionData http_response"

fun handle :: "event \<Rightarrow> state \<Rightarrow> state \<times> request list" where
  "handle (Mount resp) s = loadAgents resp s"
| "handle (TypeSelect t) s = (s\<lparr>selectedType := t\<rparr>, [])"
| "handle (AgentSelect agent) s = (s\<lparr>selectedAgent := Some agent\<rparr>, [])"
| "handle (AgentHover h) s = (s\<lparr>hoveredAgent := h\<rparr>, [])"
| "handle CreateClick s = (handleStartCreating s, [])"
| "handle DismissError s = (s\<lparr>error := None\<rparr>, [])"
| "handle (NameChange v) s = (name_onChange v s, [])"
| "handle (TypeChange t) s = (handleTypeChange t s, [])"
| "handle (PromptTemplateChange v) s = (prompt_template_onChange v s, [])"
| "handle (RemoveTool n) s = (removeSelectedTool n s, [])"
| "handle (ToolSelect tool) s = (onToolSelect tool s, [])"
| "handle (ToolCreate tool) s = (onToolCreate tool s, [])"
| "handle (ShowToolManagerChange b) s = (s\<lparr>showToolManager := b\<rparr>, [])"
| "handle Cancel s = (onCancel s, [])"
| "handle (Submit resp) s = handleCreateAgent resp s"
| "handle (MessageChange v) s = (s\<lparr>message := v\<rparr>, [])"
| "handle (LanguageChange l) s = (s\<lparr>selectedLanguage := l\<rparr>, [])"
| "handle (CodingModeChange m) s = (s\<lparr>codingMode := m\<rparr>, [])"
| "handle (MessageSend now now' resp) s = handleMessageSend now now' resp s"
| "handle (FileUpload file now' upload_resp query_resp) s =
     handleFileUpload file now' upload_resp query_resp s"

text \<open>One event: the handler, then the effects of the render that follows.\<close>

definition step :: "event \<Rightarrow> state \<Rightarrow> state \<times> request list" where
  "step ev s = (let (s', reqs) = handle ev s in (run_effects s s', reqs))"

text \<open>The state after a sequence of events, and every request issued on the way.\<close>

fun run :: "event list \<Rightarrow> state \<Rightarrow> state \<times> request list" where
  "run [] s = (s, [])"
| "run (ev # evs) s =
     (let (s1, reqs1) = step ev s; (s2, reqs2) = run evs s1 in (s2, reqs1 @ reqs2))"

section \<open>Example data\<close>

definition agentA :: AgentObject where
  "agentA = \<lparr>agent_id = 1, agent_name = ''A'', agent_type = ''rag'', status = Active,
             configuration = None, address = 1\<rparr>"

definition agentB :: AgentObject where
  "agentB = \<lparr>agent_id = 2, agent_name = ''B'', agent_type = ''coding'', status = Active,
             configuration = None, address = 2\<rparr>"

text \<open>A body of the server that answers a creation, with the type in capitals.\<close>

definition created_data :: Agent where
  "created_data = \<lparr>agent_id = 3, agent_name = ''Bot'', agent_type = ''CONVERSATIONAL'',
                   status = Active, configuration = Some Map.empty\<rparr>"

definition bot_request :: PartialAgent where
  "bot_request = \<lparr>p_id = None, p_name = Some ''Bot'', p_type = Some ''conversational'',
                  p_status = None, p_configuration = None\<rparr>"

definition example_message :: "Role \<Rightarrow> string \<Rightarrow> Message" where
  "example_message r c =
     \<lparr>role = r, content = c, timestamp = ''2025-01-01T00:00:00.000Z'', language = None,
      msg_code = None, msg_error = None\<rparr>"

text \<open>Agent A is selected, with six messages, a document and a draft message.\<close>

definition chat_state :: state where
  "chat_state =
     initial_state\<lparr>agents := [agentA, agentB], selectedAgent := Some agentA,
       messages := [example_message User ''one'', example_message Assistant ''two'',
                    example_message User ''three'', example_message Assistant ''four'',
                    example_message User ''five'', example_message Assistant ''six''],
       message := ''seven'', codingMode := Explain, hasDocument := True,
       currentDocument := Some ''notes.pdf''\<rparr>"

definition example_data :: InteractionData where
  "example_data = \<lparr>data_response = ''eight'', data_metadata = None\<rparr>"

section \<open>Properties of the API client\<close>

lemma sample_flag_iff:
  "sample_flag tool =
     (is_sample tool = Some True \<or> name tool = ''multiply'' \<or> name tool = ''add'')"
  by (auto simp: sample_flag_def split: option.splits bool.splits)

text \<open>
  C4. On a successful response \<open>listTools\<close> returns the server's tools in order, each with
  \<open>is_sample\<close> set to true exactly when the server's \<open>is_sample\<close> is true or the name is
  \<open>multiply\<close> or \<open>add\<close>, and to false otherwise; \<open>getTool\<close> marks its single tool the same
  way. Every other field, declared or not, is the server's.
\<close>

theorem C4_sample_marking:
  "listTools (Response_ok data) =
     ([GET_tools],
      Inr (map (\<lambda>t. \<lparr>name = name t, description = description t, created_by = created_by t,
                      created_at = created_at t, code = code t,
                      is_sample = Some (is_sample t = Some True \<or> name t = ''multiply''
                                        \<or> name t = ''add''),
                      \<dots> = Tool.more t\<rparr>) data))
   \<and> getTool nm (Response_ok tool) =
     ([GET_tool nm],
      Inr \<lparr>name = name tool, description = description tool, created_by = created_by tool,
           created_at = created_at tool, code = code tool,
           is_sample = Some (is_sample tool = Some True \<or> name tool = ''multiply''
                             \<or> name tool = ''add''),
           \<dots> = Tool.more tool\<rparr>)"
  by (simp add: listTools_def getTool_def sample_flag_iff)

text \<open>
  C5. A successful \<open>createTool\<close> or \<open>createToolFromCode\<close> returns the server's tool with
  \<open>is_sample\<close> false, whatever the server's flag and whatever the name.
\<close>

theorem C5_created_tool_not_sample:
  "(\<exists>tool. snd (createTool req (Response_ok data)) = Inr tool \<and> is_sample tool = Some False)
   \<and> (\<exists>tool. snd (createToolFromCode req' (Response_ok data)) = Inr tool
         \<and> is_sample tool = Some False)"
  by (simp add: createTool_def createToolFromCode_def)

subsection \<open>Lowercasing\<close>

text \<open>
  What \<open>toLowerCase\<close> computes, by code points: the string of the same length in which
  every capital (65 to 90, 192 to 214, 216 to 222) is replaced by the code point 32 above
  it and every other code unit is kept.
\<close>

lemma toLowerCase_codes:
  "map (of_char :: char \<Rightarrow> nat) (toLowerCase s) =
     map (\<lambda>c. let n = of_char c
               in if (65 \<le> n \<and> n \<le> 90) \<or> (192 \<le> n \<and> n \<le> 214) \<or> (216 \<le> n \<and> n \<le> 222)
                  then n + 32 else n) s"
  by (simp add: toLowerCase_def toLowerCase_char_def isUpperCase_code_def Let_def)

lemma toLowerCase_examples:
  "toLowerCase ''CONVERSATIONAL'' = ''conversational''"
  "toLowerCase ''Tool_Calling'' = ''tool_calling''"
  "toLowerCase ''rag 7'' = ''rag 7''"
  "toLowerCase [CHR 0xC9, CHR 0xD7, CHR 0xDE, CHR 0xDF] = [CHR 0xE9, CHR 0xD7, CHR 0xFE, CHR 0xDF]"
  by code_simp+

lemma toLowerCase_idem: "toLowerCase (toLowerCase s) = toLowerCase s"
proof -
  have "toLowerCase_char (toLowerCase_char c) = toLowerCase_char c" for c
  proof -
    have "(of_char (toLowerCase_char (toLowerCase_char c)) :: nat) = of_char (toLowerCase_char c)"
      by (simp add: toLowerCase_char_def isUpperCase_code_def Let_def)
    then show ?thesis by simp
  qed
  then show ?thesis by (simp add: toLowerCase_def)
qed

text \<open>
  C6. \<open>createAgent\<close> rejects with \<open>Agent name and type are required\<close>, issuing no request,
  when the name or the type is absent or empty. Otherwise it posts one body, the argument
  with \<open>status\<close> set to the supplied status or \<open>active\<close> and \<open>configuration\<close> to the
  supplied configuration or the empty mapping, and on a successful response returns the
  server's agent with its type lowercased: the type's capitals, with code points 65 to 90,
  192 to 214 and 216 to 222, are each replaced by the code point 32 above, and nothing
  else of the type or of the agent changes.
\<close>

theorem C6_createAgent_contract:
  "(if p_name agent = None \<or> p_name agent = Some [] \<or> p_type agent = None \<or> p_type agent = Some []
    then createAgent agent resp = ([], Inl (Error ''Agent name and type are required''))
    else (\<exists>body. fst (createAgent agent resp) = [POST_agents body]
            \<and> p_status body = Some (case p_status agent of None \<Rightarrow> Active | Some st \<Rightarrow> st)
            \<and> p_configuration body
                = Some (case p_configuration agent of None \<Rightarrow> Map.empty | Some c \<Rightarrow> c)
            \<and> p_id body = p_id agent \<and> p_name body = p_name agent \<and> p_type body = p_type agent)
         \<and> (\<exists>created. snd (createAgent agent (Response_ok data)) = Inr created
               \<and> agent_type created = toLowerCase (agent_type data)
               \<and> map (of_char :: char \<Rightarrow> nat) (agent_type created) =
                   map (\<lambda>c. let n = of_char c
                             in if (65 \<le> n \<and> n \<le> 90) \<or> (192 \<le> n \<and> n \<le> 214)
                                   \<or> (216 \<le> n \<and> n \<le> 222)
                                then n + 32 else n) (agent_type data)
               \<and> agent_id created = agent_id data \<and> agent_name created = agent_name data
               \<and> status created = status data \<and> configuration created = configuration data
               \<and> Agent.more created = Agent.more data))"
  by (auto simp: createAgent_def falsy_string_def Let_def toLowerCase_codes split: option.splits)

theorem C6_witness:
  "createAgent bot_request (Response_ok created_data) =
     ([POST_agents (bot_request\<lparr>p_status := Some Active, p_configuration := Some Map.empty\<rparr>)],
      Inr (created_data\<lparr>agent_type := ''conversational''\<rparr>))
   \<and> createAgent (bot_request\<lparr>p_name := Some []\<rparr>) (Response_ok created_data) =
     ([], Inl (Error ''Agent name and type are required''))
   \<and> createAgent (bot_request\<lparr>p_type := None\<rparr>) (Response_ok created_data) =
     ([], Inl (Error ''Agent name and type are required''))"
  using C6_createAgent_contract [of bot_request "Response_ok created_data" created_data]
    C6_createAgent_contract [of "bot_request\<lparr>p_name := Some []\<rparr>" "Response_ok created_data"
      created_data]
    C6_createAgent_contract [of "bot_request\<lparr>p_type := None\<rparr>" "Response_ok created_data"
      created_data]
  by (simp add: createAgent_def falsy_string_def bot_request_def created_data_def
        toLowerCase_examples)

text \<open>
  C8. On a successful response \<open>queryAgent\<close> posts the \<open>query\<close> field followed by the
  context entries and returns the server's \<open>response\<close> and \<open>metadata\<close>, the query it was
  given as \<open>message\<close>, and the client's clock as \<open>created_at\<close>: nothing else of the server's
  body reaches the result. \<open>interactWithAgent\<close> does the same with a single \<open>message\<close>
  field.
\<close>

theorem C8_interaction_normalized:
  "queryAgent now agentId query context (Response_ok data) =
     ([POST_agent_query agentId
         ((''query'', query) # (case context of None \<Rightarrow> [] | Some entries \<Rightarrow> entries))],
      Inr \<lparr>air_response = data_response data, air_message = query,
           air_created_at = now, air_metadata = data_metadata data\<rparr>)
   \<and> interactWithAgent now agentId msg (Response_ok data') =
     ([POST_agent_interact agentId [(''message'', msg)]],
      Inr \<lparr>air_response = data_response data', air_message = msg,
           air_created_at = now, air_metadata = data_metadata data'\<rparr>)"
  by (simp add: queryAgent_def interactWithAgent_def)

section \<open>Properties of the root controller\<close>

lemma trim_Nil_iff: "trim s = [] \<longleftrightarrow> (\<forall>c \<in> set s. isWhitespace c)"
proof
  assume "trim s = []"
  then have a: "\<forall>c \<in> set (dropWhile isWhitespace s). isWhitespace c"
    by (simp add: trim_def)
  have "dropWhile isWhitespace s = []"
  proof (rule ccontr)
    assume n: "dropWhile isWhitespace s \<noteq> []"
    then have "\<not> isWhitespace (hd (dropWhile isWhitespace s))" by (rule hd_dropWhile)
    moreover have "hd (dropWhile isWhitespace s) \<in> set (dropWhile isWhitespace s)"
      using n by simp
    ultimately show False using a by blast
  qed
  then show "\<forall>c \<in> set s. isWhitespace c" by simp
next
  assume "\<forall>c \<in> set s. isWhitespace c"
  then show "trim s = []" by (auto simp: trim_def dest: set_dropWhileD)
qed

lemmas example_defs =
  agentA_def agentB_def example_message_def chat_state_def example_data_def initial_state_def

subsection \<open>Effects\<close>

lemma run_effects_same_deps:
  "selectedAgent new = selectedAgent old \<Longrightarrow> selectedType new = selectedType old \<Longrightarrow>
   run_effects old new = new"
  by (simp add: run_effects_def)

lemma selectedAgent_effect_fields:
  "selectedAgent (selectedAgent_effect s) = selectedAgent s"
  "selectedType (selectedAgent_effect s) = selectedType s"
  by (simp_all add: selectedAgent_effect_def Let_def split: option.splits)

lemma selectedAgent_effect_resets:
  "selectedAgent s = Some agent \<Longrightarrow>
   messages (selectedAgent_effect s) = [] \<and> hasDocument (selectedAgent_effect s) = False
   \<and> currentDocument (selectedAgent_effect s) = None
   \<and> codingMode (selectedAgent_effect s)
       = (if agent_type agent = ''coding'' then Generate else codingMode s)"
  by (simp add: selectedAgent_effect_def Let_def)

lemma selectedType_effect_fields:
  "selectedAgent (selectedType_effect s) = selectedAgent s"
  "messages (selectedType_effect s) = messages s"
  "hasDocument (selectedType_effect s) = hasDocument s"
  "currentDocument (selectedType_effect s) = currentDocument s"
  "codingMode (selectedType_effect s) = codingMode s"
  by (simp_all add: selectedType_effect_def)

lemma run_effects_selectedAgent: "selectedAgent (run_effects old new) = selectedAgent new"
  by (simp add: run_effects_def Let_def selectedAgent_effect_fields selectedType_effect_fields)

lemma run_effects_resets:
  assumes "selectedAgent new \<noteq> selectedAgent old" and "selectedAgent new = Some agent"
  shows "messages (run_effects old new) = [] \<and> hasDocument (run_effects old new) = False
   \<and> currentDocument (run_effects old new) = None
   \<and> codingMode (run_effects old new)
       = (if agent_type agent = ''coding'' then Generate else codingMode new)"
  using assms selectedAgent_effect_resets [of new agent]
  by (simp add: run_effects_def Let_def selectedType_effect_fields)

lemma step_fst: "fst (step ev s) = run_effects s (fst (handle ev s))"
  by (simp add: step_def split: prod.splits)

subsection \<open>What the handlers leave alone\<close>

lemma loadAgents_keeps:
  "selectedAgent (fst (loadAgents resp s)) = selectedAgent s"
  "codingMode (fst (loadAgents resp s)) = codingMode s"
  by (simp_all add: loadAgents_def listAgents_def Let_def split: http_response.splits)

lemma handleMessageSend_keeps:
  "selectedAgent (fst (handleMessageSend now now' resp s)) = selectedAgent s"
  "selectedType (fst (handleMessageSend now now' resp s)) = selectedType s"
  "codingMode (fst (handleMessageSend now now' resp s)) = codingMode s"
  by (simp_all add: handleMessageSend_def queryAgent_def Let_def
        split: option.splits sum.splits http_response.splits)

lemma handleFileUpload_keeps:
  "selectedAgent (fst (handleFileUpload file now' ur qr s)) = selectedAgent s"
  "codingMode (fst (handleFileUpload file now' ur qr s)) = codingMode s"
  by (simp_all add: handleFileUpload_def upload_failed_def uploadDocument_def queryAgent_def Let_def
        split: option.splits sum.splits http_response.splits)

lemma handleCreateAgent_codingMode:
  "codingMode (fst (handleCreateAgent resp s)) = codingMode s"
  by (simp add: handleCreateAgent_def Let_def split: prod.splits sum.splits)

lemma handle_codingMode:
  "selectedAgent (fst (handle ev s)) \<noteq> selectedAgent s \<Longrightarrow>
   codingMode (fst (handle ev s)) = codingMode s"
  by (cases ev)
     (simp_all add: loadAgents_keeps handleMessageSend_keeps handleFileUpload_keeps
        handleCreateAgent_codingMode handleStartCreating_def name_onChange_def
        handleTypeChange_def Let_def prompt_template_onChange_def removeSelectedTool_def
        onToolSelect_def onToolCreate_def onCancel_def)

subsection \<open>Sending a message\<close>

text \<open>
  C10. When no agent is selected, or the draft message is empty or white space only
  (every code unit is one that \<open>trim\<close> strips, the no-break space included),
  \<open>handleMessageSend\<close> does nothing: the state is the one it started from (so
  \<open>messages\<close>, \<open>message\<close>, \<open>error\<close> and \<open>isLoading\<close> are unchanged and no user message
  is appended) and no request is issued.
\<close>

theorem C10_blank_send_is_noop:
  assumes "selectedAgent s = None \<or> (\<forall>c \<in> set (message s). isWhitespace c)"
  shows "handleMessageSend now now' resp s = (s, [])
         \<and> step (MessageSend now now' resp) s = (s, [])"
proof -
  have "handleMessageSend now now' resp s = (s, [])"
    using assms by (auto simp: handleMessageSend_def trim_Nil_iff split: option.splits)
  then show ?thesis by (simp add: step_def run_effects_def)
qed

theorem C10_witness:
  "handleMessageSend ''t0'' ''t1'' (Response_ok example_data) (initial_state\<lparr>message := ''seven''\<rparr>)
     = (initial_state\<lparr>message := ''seven''\<rparr>, [])
   \<and> step (MessageSend ''t0'' ''t1'' (Response_ok example_data)) (chat_state\<lparr>message := ''  ''\<rparr>)
     = (chat_state\<lparr>message := ''  ''\<rparr>, [])
   \<and> handleMessageSend ''t0'' ''t1'' (Response_ok example_data)
        (chat_state\<lparr>message := [CHR 0xA0, CHR 0x09, CHR 0xA0]\<rparr>)
     = (chat_state\<lparr>message := [CHR 0xA0, CHR 0x09, CHR 0xA0]\<rparr>, [])
   \<and> handleMessageSend ''t0'' ''t1'' (Response_ok example_data) (chat_state\<lparr>message := []\<rparr>)
     = (chat_state\<lparr>message := []\<rparr>, [])"
  using C10_blank_send_is_noop [of "initial_state\<lparr>message := ''seven''\<rparr>" "''t0''" "''t1''"
          "Response_ok example_data"]
    C10_blank_send_is_noop [of "chat_state\<lparr>message := ''  ''\<rparr>" "''t0''" "''t1''"
          "Response_ok example_data"]
    C10_blank_send_is_noop [of "chat_state\<lparr>message := [CHR 0xA0, CHR 0x09, CHR 0xA0]\<rparr>"
          "''t0''" "''t1''" "Response_ok example_data"]
    C10_blank_send_is_noop [of "chat_state\<lparr>message := []\<rparr>" "''t0''" "''t1''"
          "Response_ok example_data"]
  by (simp add: isWhitespace_def example_defs)

text \<open>
  C2. A send that passes the guard issues one query. From a list that ends in the five
  messages \<open>m1\<close> to \<open>m5\<close> (so from every list of at least five) its \<open>query\<close> field is
  \<open>Chat history:\<close>, a newline, the five formatted as \<open>User: content\<close> or
  \<open>Assistant: content\<close> by role, in order, joined by newlines, then an empty line,
  \<open>New message:\<close>, a newline and the draft message. From the empty list the field is the
  draft message alone.
\<close>

theorem C2_history_of_last_five:
  assumes "selectedAgent s = Some agent" and "trim (message s) \<noteq> []"
  shows "(\<forall>m. format_message m
              = (case role m of User \<Rightarrow> ''User: '' | Assistant \<Rightarrow> ''Assistant: '') @ content m)
    \<and> (messages s = earlier @ [m1, m2, m3, m4, m5] \<longrightarrow>
         snd (handleMessageSend now now' resp s) =
           [POST_agent_query (agent_id agent)
              ((''query'',
                ''Chat history:\<newline>''
                  @ format_message m1 @ ''\<newline>'' @ format_message m2 @ ''\<newline>''
                  @ format_message m3 @ ''\<newline>'' @ format_message m4 @ ''\<newline>''
                  @ format_message m5
                  @ ''\<newline>\<newline>New message:\<newline>'' @ message s)
               # (case query_context agent s of None \<Rightarrow> [] | Some entries \<Rightarrow> entries))])
    \<and> (messages s = [] \<longrightarrow>
         snd (handleMessageSend now now' resp s) =
           [POST_agent_query (agent_id agent)
              ((''query'', message s)
               # (case query_context agent s of None \<Rightarrow> [] | Some entries \<Rightarrow> entries))])"
proof -
  have fmt: "format_message m
              = (case role m of User \<Rightarrow> ''User: '' | Assistant \<Rightarrow> ''Assistant: '') @ content m" for m
    by (simp add: format_message_def split: Role.splits)
  have reqs: "snd (handleMessageSend now now' resp s) =
      [POST_agent_query (agent_id agent)
         ((''query'', messageWithHistory s)
            # (case query_context agent s of None \<Rightarrow> [] | Some entries \<Rightarrow> entries))]"
    using assms
    by (simp add: handleMessageSend_def queryAgent_def Let_def split: sum.splits http_response.splits)
  have five: "messageWithHistory s =
      ''Chat history:\<newline>''
        @ format_message m1 @ ''\<newline>'' @ format_message m2 @ ''\<newline>''
        @ format_message m3 @ ''\<newline>'' @ format_message m4 @ ''\<newline>''
        @ format_message m5
        @ ''\<newline>\<newline>New message:\<newline>'' @ message s"
    if "messages s = earlier @ [m1, m2, m3, m4, m5]"
    using that by (simp add: messageWithHistory_def lastFiveMessages_def slice_last_def format_message_def)
  have none: "messageWithHistory s = message s" if "messages s = []"
    using that by (simp add: messageWithHistory_def lastFiveMessages_def slice_last_def)
  show ?thesis using fmt reqs five none by simp
qed

theorem C2_witness:
  "snd (handleMessageSend ''t0'' ''t1'' (Response_ok example_data) chat_state) =
     [POST_agent_query 1
        [(''query'',
          ''Chat history:\<newline>Assistant: two\<newline>User: three\<newline>Assistant: four\<newline>User: five\<newline>Assistant: six\<newline>\<newline>New message:\<newline>seven'')]]
   \<and> snd (handleMessageSend ''t0'' ''t1'' (Response_ok example_data) (chat_state\<lparr>messages := []\<rparr>)) =
     [POST_agent_query 1 [(''query'', ''seven'')]]"
  using C2_history_of_last_five [of chat_state agentA "[example_message User ''one'']"
          "example_message Assistant ''two''" "example_message User ''three''"
          "example_message Assistant ''four''" "example_message User ''five''"
          "example_message Assistant ''six''" "''t0''" "''t1''" "Response_ok example_data"]
    C2_history_of_last_five [of "chat_state\<lparr>messages := []\<rparr>" agentA "[]"
          "example_message Assistant ''two''" "example_message User ''three''"
          "example_message Assistant ''four''" "example_message User ''five''"
          "example_message Assistant ''six''" "''t0''" "''t1''" "Response_ok example_data"]
  by (simp add: trim_def isWhitespace_def query_context_def format_message_def example_defs)

text \<open>
  C9. When \<open>queryAgent\<close> rejects, the handler ends with the error
  \<open>Failed to send message\<close> and with the message list it started from followed by the
  user message alone: the optimistic append is neither rolled back nor followed by an
  assistant message.
\<close>

theorem C9_failed_send_keeps_user_message:
  assumes "selectedAgent s = Some agent" and "trim (message s) \<noteq> []"
    and "snd (queryAgent now' (agent_id agent) (messageWithHistory s) (query_context agent s) resp)
           = Inl err"
  shows "error (fst (handleMessageSend now now' resp s)) = Some ''Failed to send message''
    \<and> messages (fst (handleMessageSend now now' resp s)) = messages s @ [userMessage now agent s]
    \<and> role (userMessage now agent s) = User \<and> content (userMessage now agent s) = message s
    \<and> fst (step (MessageSend now now' resp) s) = fst (handleMessageSend now now' resp s)"
proof -
  let ?s' = "fst (handleMessageSend now now' resp s)"
  have a: "error ?s' = Some ''Failed to send message''"
    and b: "messages ?s' = messages s @ [userMessage now agent s]"
    using assms by (auto simp: handleMessageSend_def Let_def split: prod.splits)
  have "run_effects s ?s' = ?s'"
    by (rule run_effects_same_deps) (simp_all add: handleMessageSend_keeps)
  then show ?thesis using a b by (simp add: step_fst userMessage_def)
qed

theorem C9_witness:
  "error (fst (handleMessageSend ''t0'' ''t1'' (Response_not_ok (Some ''overloaded'')) chat_state))
     = Some ''Failed to send message''
   \<and> messages (fst (handleMessageSend ''t0'' ''t1'' (Response_not_ok (Some ''overloaded'')) chat_state))
     = messages chat_state @ [userMessage ''t0'' agentA chat_state]
   \<and> role (userMessage ''t0'' agentA chat_state) = User
   \<and> content (userMessage ''t0'' agentA chat_state) = ''seven''"
  using C9_failed_send_keeps_user_message [of chat_state agentA "''t1''"
          "Response_not_ok (Some ''overloaded'')" "Error ''overloaded''" "''t0''"]
  by (simp add: queryAgent_def detail_or_def trim_def isWhitespace_def example_defs)

subsection \<open>Creating an agent\<close>

text \<open>
  C3. When the draft's type is \<open>tool_calling\<close> and no tool is selected,
  \<open>handleCreateAgent\<close> issues no request and changes nothing but the error, which becomes
  \<open>Please select at least one tool for the Tool Agent\<close>, and the loading flag, which ends
  false: the agent list, the draft and the selection are the ones it started from.
\<close>

theorem C3_tool_agent_needs_a_tool:
  assumes "na_type (newAgent s) = Tool_calling" and "selectedTools s = []"
  shows "handleCreateAgent resp s =
           (s\<lparr>isLoading := False,
               error := Some ''Please select at least one tool for the Tool Agent''\<rparr>, [])
         \<and> step (Submit resp) s = handleCreateAgent resp s"
  using assms by (simp add: handleCreateAgent_def step_def run_effects_def)

theorem C3_witness:
  "handleCreateAgent (Response_ok created_data)
       (handleTypeChange Tool_calling (handleStartCreating initial_state))
    = ((handleTypeChange Tool_calling (handleStartCreating initial_state))
         \<lparr>isLoading := False,
          error := Some ''Please select at least one tool for the Tool Agent''\<rparr>, [])
   \<and> step (Submit (Response_ok created_data))
        (handleTypeChange Tool_calling (handleStartCreating initial_state))
      = handleCreateAgent (Response_ok created_data)
          (handleTypeChange Tool_calling (handleStartCreating initial_state))"
  using C3_tool_agent_needs_a_tool
    [of "handleTypeChange Tool_calling (handleStartCreating initial_state)" "Response_ok created_data"]
  by (simp add: handleTypeChange_def handleStartCreating_def initial_state_def)

text \<open>
  The form's type selector installs the default prompt template of a conversational
  agent, and a draft that went through it is submitted with the template.
\<close>

lemma form_selector_installs_template:
  "snd (run [CreateClick, TypeChange Rag, TypeChange Conversational, NameChange ''Bot'', Submit resp]
          initial_state) =
     [POST_agents \<lparr>p_id = None, p_name = Some ''Bot'', p_type = Some ''conversational'',
                   p_status = Some Active,
                   p_configuration = Some [''prompt_template'' \<mapsto> JString default_prompt_template]\<rparr>]"
  by (auto simp: step_def run_effects_def handleStartCreating_def name_onChange_def
      handleTypeChange_def handleCreateAgent_def agentData_def createAgent_def falsy_string_def
      initial_state_def Let_def split: prod.splits sum.splits)

text \<open>
  C1. The flow that never touches the type selector: from the initial state the user
  opens the form, types a name and submits. The draft is conversational and its
  configuration is still the empty mapping of \<open>handleStartCreating\<close>, so the body posted by
  \<open>createAgent\<close> has no \<open>prompt_template\<close>.
\<close>

theorem C1_untouched_selector_submits_no_template:
  "snd (run [CreateClick, NameChange ''Bot'', Submit resp] initial_state) =
     [POST_agents \<lparr>p_id = None, p_name = Some ''Bot'', p_type = Some ''conversational'',
                   p_status = Some Active, p_configuration = Some Map.empty\<rparr>]
   \<and> na_type (newAgent (fst (run [CreateClick, NameChange ''Bot''] initial_state))) = Conversational
   \<and> na_configuration (newAgent (fst (run [CreateClick, NameChange ''Bot''] initial_state)))
        ''prompt_template'' = None"
  by (auto simp: step_def run_effects_def handleStartCreating_def name_onChange_def
      handleCreateAgent_def agentData_def createAgent_def falsy_string_def initial_state_def
      Let_def split: prod.splits sum.splits)

subsection \<open>Changing the selection\<close>

text \<open>
  New objects are new references: the address given to a created agent is above every
  address the state holds, so a created agent is never the object selected before, even
  when all its fields are those of that object.
\<close>

lemma fold_max_lower: "(b::nat) \<le> fold max xs b"
proof (induction xs arbitrary: b)
  case Nil
  show ?case by simp
next
  case (Cons x xs)
  have "b \<le> max x b" by simp
  also have "max x b \<le> fold max xs (max x b)" by (rule Cons.IH)
  finally show ?case by simp
qed

lemma fold_max_upper: "x \<in> set xs \<Longrightarrow> (x::nat) \<le> fold max xs b"
proof (induction xs arbitrary: b)
  case Nil
  then show ?case by simp
next
  case (Cons y ys)
  show ?case
  proof (cases "x = y")
    case True
    have "x \<le> max y b" using True by simp
    also have "max y b \<le> fold max ys (max y b)" by (rule fold_max_lower)
    finally show ?thesis by simp
  next
    case False
    with Cons.prems have "x \<in> set ys" by simp
    then show ?thesis using Cons.IH by simp
  qed
qed

lemma fresh_address_above: "a \<in> set (live_addresses s) \<Longrightarrow> a < fresh_address s"
  using fold_max_upper [of a "live_addresses s" 0] by (simp add: fresh_address_def)

lemma new_object_not_selected:
  "selectedAgent s \<noteq> Some (new_object (fresh_address s) created)"
proof
  assume eq: "selectedAgent s = Some (new_object (fresh_address s) created)"
  then have "address (new_object (fresh_address s) created) \<in> set (live_addresses s)"
    by (simp add: live_addresses_def)
  then have "address (new_object (fresh_address s) created) < fresh_address s"
    by (rule fresh_address_above)
  then show False by (simp add: new_object_def)
qed

text \<open>A successful creation always selects a new object, and so resets the chat.\<close>

lemma created_agent_resets:
  assumes "\<not> (na_type (newAgent s) = Tool_calling \<and> selectedTools s = [])"
    and "snd (createAgent (agentData s) resp) = Inr created"
  shows "selectedAgent (fst (step (Submit resp) s)) = Some (new_object (fresh_address s) created)
    \<and> selectedAgent (fst (step (Submit resp) s)) \<noteq> selectedAgent s
    \<and> messages (fst (step (Submit resp) s)) = []
    \<and> hasDocument (fst (step (Submit resp) s)) = False
    \<and> currentDocument (fst (step (Submit resp) s)) = None"
proof -
  let ?h = "fst (handle (Submit resp) s)"
  have sel: "selectedAgent ?h = Some (new_object (fresh_address s) created)"
    using assms by (auto simp: handleCreateAgent_def Let_def split: prod.splits)
  have ch: "selectedAgent ?h \<noteq> selectedAgent s"
    using sel new_object_not_selected [of s created] by simp
  show ?thesis
    using run_effects_resets [OF ch sel] sel ch
    by (simp add: step_fst run_effects_selectedAgent)
qed

text \<open>
  Selecting another object resets the chat even when its fields are those of the selected
  one; selecting the selected object again changes nothing.
\<close>

lemma other_object_resets:
  assumes "selectedAgent s = Some current" and "address agent \<noteq> address current"
  shows "messages (fst (step (AgentSelect agent) s)) = []
    \<and> hasDocument (fst (step (AgentSelect agent) s)) = False
    \<and> currentDocument (fst (step (AgentSelect agent) s)) = None"
proof -
  let ?h = "fst (handle (AgentSelect agent) s)"
  have sel: "selectedAgent ?h = Some agent" by simp
  have ch: "selectedAgent ?h \<noteq> selectedAgent s" using assms by auto
  show ?thesis using run_effects_resets [OF ch sel] by (simp add: step_fst)
qed

lemma same_object_keeps:
  "selectedAgent s = Some agent \<Longrightarrow> step (AgentSelect agent) s = (s, [])"
  by (simp add: step_def run_effects_def)

text \<open>
  C7. Whatever the event, if it leaves a selected agent that is not the selection it
  started from, the state after it has no messages, no document flag and no document
  name, whatever they were before; the coding mode is \<open>generate\<close> if the new agent's type
  is \<open>coding\<close> and is otherwise untouched.
\<close>

theorem C7_selection_change_resets:
  assumes "selectedAgent (fst (step ev s)) = Some agent"
    and "selectedAgent (fst (step ev s)) \<noteq> selectedAgent s"
  shows "messages (fst (step ev s)) = [] \<and> hasDocument (fst (step ev s)) = False
    \<and> currentDocument (fst (step ev s)) = None
    \<and> codingMode (fst (step ev s))
        = (if agent_type agent = ''coding'' then Generate else codingMode s)"
proof -
  let ?h = "fst (handle ev s)"
  have sel: "selectedAgent ?h = Some agent" and ch: "selectedAgent ?h \<noteq> selectedAgent s"
    using assms by (simp_all add: step_fst run_effects_selectedAgent)
  have "codingMode ?h = codingMode s" using ch by (rule handle_codingMode)
  with run_effects_resets [OF ch sel] show ?thesis by (simp add: step_fst)
qed

theorem C7_witness:
  "selectedAgent (fst (step (AgentSelect agentB) chat_state)) = Some agentB
   \<and> selectedAgent (fst (step (AgentSelect agentB) chat_state)) \<noteq> selectedAgent chat_state
   \<and> messages (fst (step (AgentSelect agentB) chat_state)) = []
   \<and> hasDocument (fst (step (AgentSelect agentB) chat_state)) = False
   \<and> currentDocument (fst (step (AgentSelect agentB) chat_state)) = None
   \<and> codingMode (fst (step (AgentSelect agentB) chat_state)) = Generate"
  using C7_selection_change_resets [of "AgentSelect agentB" chat_state agentB]
  by (simp add: step_def run_effects_def selectedAgent_effect_def example_defs)

end
